theory Spec2Isabelle
  imports Main "HOL-Library.Sublist"
begin

section \<open>Password recovery window: values, files and errors\<close>

text \<open>
  The development embeds \<^verbatim>\<open>FinalProject/windows/recovery_window.py\<close>.
  Console printing is left out; every dialog opened by \<^verbatim>\<open>show_message\<close> on a path that
  a property below speaks about is recorded in a list of notices.
\<close>

subsection \<open>Values produced by json.load\<close>

text \<open>
  A value read by \<^verbatim>\<open>json.load\<close>. A Python dict is kept as an association list in
  insertion order, which is the order \<^verbatim>\<open>.items()\<close> iterates in. Numbers are kept as
  integers: in this program a number is only tested for truth, searched with \<^verbatim>\<open>in\<close>,
  subscripted or handed to \<^verbatim>\<open>re.fullmatch\<close>, and a float behaves like a non-zero or zero
  integer in each of these.
\<close>

datatype json =
    JNull
  | JBool bool
  | JNum int
  | JStr string
  | JArr "json list"
  | JObj "(string \<times> json) list"

text \<open>
  What \<^verbatim>\<open>os.path.exists\<close>, \<^verbatim>\<open>open\<close> and \<^verbatim>\<open>json.load\<close> find at a fixed path:
  no file, a file whose text the decoder rejects (with the decoder's message), or a file
  that decodes to a value.
\<close>

datatype resource =
    Missing
  | Undecodable string
  | Content json

subsection \<open>Errors\<close>

text \<open>
  The text of a \<^verbatim>\<open>DatabaseError\<close> is an f-string over the username and the printed form of
  the record; it is kept by its parts. \<^verbatim>\<open>MissingFields u d\<close> stands for
  \<^verbatim>\<open>f"Missing fields for user '{u}': {d}"\<close>, \<^verbatim>\<open>InvalidEmailFormat u e\<close> for
  \<^verbatim>\<open>f"Invalid email format for user '{u}': {e}"\<close>, \<^verbatim>\<open>DbFileNotFound\<close> for
  \<^verbatim>\<open>f"Database file not found at {DB_FILE}"\<close> and \<^verbatim>\<open>InvalidStructure\<close> for
  \<^verbatim>\<open>"Invalid user database structure."\<close>.
\<close>

datatype db_fault =
    MissingFields string json
  | InvalidEmailFormat string json
  | DbFileNotFound
  | InvalidStructure

text \<open>
  \<^verbatim>\<open>MissingCredentials\<close> stands for
  \<^verbatim>\<open>"Missing email or password in the configuration file."\<close>, \<^verbatim>\<open>DecodeFailure m\<close> for
  \<^verbatim>\<open>f"Failed to decode email config: {e}"\<close> with \<^verbatim>\<open>m\<close> the decoder's message, and
  \<^verbatim>\<open>ConfigFileNotFound\<close> for \<^verbatim>\<open>f"Config file not found at {EMAIL_CONFIG_FILE}"\<close>.
\<close>

datatype config_fault =
    MissingCredentials
  | DecodeFailure string
  | ConfigFileNotFound

text \<open>
  Modelled from the spec: the four error classes of \<^verbatim>\<open>FinalProject.assets.custom_errors\<close>
  (the failure taxonomy of the error handling design: config, store, not-found and send
  errors), whose module is not part of the sources. Each is taken to be an ordinary
  subclass of \<^verbatim>\<open>Exception\<close>, unrelated to the others and to the built-in errors, so that
  \<^verbatim>\<open>except Exception\<close> catches it. The remaining constructors are the built-in errors
  that the operations on loaded values raise.
\<close>

datatype error =
    DatabaseError db_fault
  | EmailConfigError config_fault
  | EmailSendingError string
  | UserNotFoundError string
  | FileNotFoundError
  | JSONDecodeError string
  | AttributeError
  | TypeError
  | KeyError

text \<open>
  A dialog opened by \<^verbatim>\<open>show_message(parent, title, text)\<close>: with a literal text, or with
  a text \<^verbatim>\<open>f"{prefix}{e}"\<close> built from a caught error.
\<close>

datatype notice =
    Notice string string
  | NoticeOf string string error

subsection \<open>Python operations on loaded values\<close>


text \<open>\<^verbatim>\<open>d.get(k)\<close>: only a dict has the method; a missing key gives \<^verbatim>\<open>None\<close>.\<close>

fun py_get :: "json \<Rightarrow> string \<Rightarrow> error + json" where
  "py_get (JObj kvs) k = Inr (case map_of kvs k of None \<Rightarrow> JNull | Some v \<Rightarrow> v)"
| "py_get v k = Inl AttributeError"

text \<open>
  \<^verbatim>\<open>k in d\<close> for a string \<^verbatim>\<open>k\<close>: key membership in a dict, substring test in a string,
  element membership in a list, and a TypeError for a value that is not a container.
\<close>

fun py_in :: "string \<Rightarrow> json \<Rightarrow> error + bool" where
  "py_in k (JObj kvs) = Inr (k \<in> set (map fst kvs))"
| "py_in k (JStr s) = Inr (sublist k s)"
| "py_in k (JArr xs) = Inr (JStr k \<in> set xs)"
| "py_in k v = Inl TypeError"

text \<open>\<^verbatim>\<open>d[k]\<close> for a string \<^verbatim>\<open>k\<close>: only a dict can be subscripted by a string.\<close>

fun py_item :: "json \<Rightarrow> string \<Rightarrow> error + json" where
  "py_item (JObj kvs) k = (case map_of kvs k of None \<Rightarrow> Inl KeyError | Some v \<Rightarrow> Inr v)"
| "py_item v k = Inl TypeError"

text \<open>
  \<^verbatim>\<open>re.fullmatch(email_regex, v)\<close> as a truth value. The pattern \<^verbatim>\<open>email_regex\<close> comes
  from \<^verbatim>\<open>FinalProject.assets.regex\<close>, which is not part of the sources: the set of strings
  it fully matches is the parameter \<^verbatim>\<open>rx\<close> of every function that validates. Matching a
  value that is not a string raises a TypeError.
\<close>

fun fullmatch :: "(string \<Rightarrow> bool) \<Rightarrow> json \<Rightarrow> error + bool" where
  "fullmatch rx (JStr s) = Inr (rx s)"
| "fullmatch rx v = Inl TypeError"

subsection \<open>Strings: strip and lower\<close>

text \<open>
  Strings are lists of characters with code points below 256. On that range
  \<^verbatim>\<open>str.isspace\<close> holds for 9 to 13, 28 to 32, 133 and 160, and \<^verbatim>\<open>str.lower\<close> maps
  65 to 90 and 192 to 222 (without 215) thirty-two places up and leaves the rest alone.
\<close>

definition isspace :: "char \<Rightarrow> bool" where
  "isspace c =
     (let n = (of_char c :: nat)
      in (9 \<le> n \<and> n \<le> 13) \<or> (28 \<le> n \<and> n \<le> 32) \<or> n = 133 \<or> n = 160)"

definition strip :: "string \<Rightarrow> string" where
  "strip s = rev (dropWhile isspace (rev (dropWhile isspace s)))"

definition lower_char :: "char \<Rightarrow> char" where
  "lower_char c =
     (let n = (of_char c :: nat)
      in if (65 \<le> n \<and> n \<le> 90) \<or> (192 \<le> n \<and> n \<le> 222 \<and> n \<noteq> 215)
         then char_of (n + 32) else c)"

definition lower :: "string \<Rightarrow> string" where
  "lower s = map lower_char s"

section \<open>load_config\<close>


section \<open>EmailSender\<close>

record email_sender =
  smtp_server :: string
  smtp_port :: int
  sender_email :: string
  sender_password :: string

text \<open>The message assembled in lines 88 to 99, by its headers and its plain-text part.\<close>

record email_message =
  msg_from :: string
  msg_to :: string
  msg_subject :: string
  msg_body :: string

definition newline :: char where
  "newline = CHR 0x0A"

definition recovery_body :: "string \<Rightarrow> string" where
  "recovery_body username =
     ''Hello '' @ username @ '','' @ [newline, newline]
     @ ''We received a request to recover your password.'' @ [newline]
     @ ''Your password is: ['password_hash']'' @ [newline, newline]
     @ ''If you did not request this, please ignore this message.''"

definition recovery_message :: "email_sender \<Rightarrow> string \<Rightarrow> string \<Rightarrow> email_message" where
  "recovery_message self recipient_email username =
     \<lparr> msg_from = sender_email self,
       msg_to = recipient_email,
       msg_subject = ''Password Recovery'',
       msg_body = recovery_body username \<rparr>"

text \<open>
  What a step of the SMTP session raises. The two classes that have a handler of their
  own are constructors; every other exception is \<^verbatim>\<open>OtherException m\<close> with \<^verbatim>\<open>m\<close> its
  printed form.
\<close>

datatype smtp_exn =
    SMTPAuthenticationError
  | SMTPConnectError
  | OtherException string

text \<open>
  The mail relay as the four calls of lines 105 to 108 see it: each call either passes
  (\<^verbatim>\<open>None\<close>) or raises.
\<close>

record smtp =
  connect :: "string \<Rightarrow> int \<Rightarrow> smtp_exn option"
  starttls :: "smtp_exn option"
  login :: "string \<Rightarrow> string \<Rightarrow> smtp_exn option"
  sendmail :: "string \<Rightarrow> string \<Rightarrow> email_message \<Rightarrow> smtp_exn option"

text \<open>The body of the try block: the first call that raises ends it.\<close>

definition smtp_session :: "email_sender \<Rightarrow> smtp \<Rightarrow> string \<Rightarrow> email_message \<Rightarrow> smtp_exn option" where
  "smtp_session self srv recipient_email msg =
     (case connect srv (smtp_server self) (smtp_port self) of
        Some x \<Rightarrow> Some x
      | None \<Rightarrow>
          (case starttls srv of
             Some x \<Rightarrow> Some x
           | None \<Rightarrow>
               (case login srv (sender_email self) (sender_password self) of
                  Some x \<Rightarrow> Some x
                | None \<Rightarrow> sendmail srv (sender_email self) recipient_email msg)))"

definition send_recovery_email :: "email_sender \<Rightarrow> smtp \<Rightarrow> string \<Rightarrow> string \<Rightarrow> error + unit" where
  "send_recovery_email self srv recipient_email username =
     (case smtp_session self srv recipient_email (recovery_message self recipient_email username) of
        None \<Rightarrow> Inr ()
      | Some SMTPAuthenticationError \<Rightarrow>
          Inl (EmailSendingError ''Authentication error: Unable to authenticate with SMTP server.'')
      | Some SMTPConnectError \<Rightarrow>
          Inl (EmailSendingError ''Connection error: Could not connect to SMTP server.'')
      | Some (OtherException m) \<Rightarrow>
          Inl (EmailSendingError (''Failed to send the recovery email: '' @ m)))"

section \<open>RecoveryWindow\<close>

subsection \<open>validate_users_db\<close>

text \<open>
  Lines 249 to 255 for one record: \<^verbatim>\<open>None\<close> when the record passes, the error raised
  otherwise.
\<close>

definition validate_record :: "(string \<Rightarrow> bool) \<Rightarrow> string \<Rightarrow> json \<Rightarrow> error option" where
  "validate_record rx username details =
     (case py_in ''email'' details of
        Inl e \<Rightarrow> Some e
      | Inr has_email \<Rightarrow>
          if \<not> has_email then Some (DatabaseError (MissingFields username details))
          else
            (case py_in ''password_hash'' details of
               Inl e \<Rightarrow> Some e
             | Inr has_hash \<Rightarrow>
                 if \<not> has_hash then Some (DatabaseError (MissingFields username details))
                 else
                   (case py_item details ''email'' of
                      Inl e \<Rightarrow> Some e
                    | Inr v \<Rightarrow>
                        (case fullmatch rx v of
                           Inl e \<Rightarrow> Some e
                         | Inr ok \<Rightarrow>
                             if \<not> ok then Some (DatabaseError (InvalidEmailFormat username v))
                             else None))))"

fun validate_items :: "(string \<Rightarrow> bool) \<Rightarrow> (string \<times> json) list \<Rightarrow> error + bool" where
  "validate_items rx [] = Inr True"
| "validate_items rx ((username, details) # rest) =
     (case validate_record rx username details of
        Some e \<Rightarrow> Inl e
      | None \<Rightarrow> validate_items rx rest)"

text \<open>\<^verbatim>\<open>db.items()\<close> exists on a dict only.\<close>

fun validate_users_db :: "(string \<Rightarrow> bool) \<Rightarrow> json \<Rightarrow> error + bool" where
  "validate_users_db rx (JObj items) = validate_items rx items"
| "validate_users_db rx db = Inl AttributeError"

subsection \<open>load_users_db\<close>

text \<open>
  The try block of lines 270 to 286: what it returns or raises. A file that is absent
  raises the DatabaseError of line 274, a text the decoder rejects raises its
  JSONDecodeError at line 277, and a loaded value is validated; the test of line 280 on
  the validator's result is kept although the validator returns nothing but True.
\<close>

definition load_users_db_try :: "(string \<Rightarrow> bool) \<Rightarrow> resource \<Rightarrow> error + json" where
  "load_users_db_try rx f =
     (case f of
        Missing \<Rightarrow> Inl (DatabaseError DbFileNotFound)
      | Undecodable m \<Rightarrow> Inl (JSONDecodeError m)
      | Content data \<Rightarrow>
          (case validate_users_db rx data of
             Inl e \<Rightarrow> Inl e
           | Inr ok \<Rightarrow> if \<not> ok then Inl (DatabaseError InvalidStructure) else Inr data))"

text \<open>
  The three handlers of lines 288 to 296, in their order, and the \<^verbatim>\<open>return {}\<close> of line
  298 that each of them falls through to. The dialog of the first handler has the text
  that \<^verbatim>\<open>DbFileNotFound\<close> stands for. The result is a sum like that of every other
  function here; no branch gives \<^verbatim>\<open>Inl\<close>.
\<close>

definition load_users_db :: "(string \<Rightarrow> bool) \<Rightarrow> resource \<Rightarrow> notice list \<times> (error + json)" where
  "load_users_db rx f =
     (case load_users_db_try rx f of
        Inr data \<Rightarrow> ([], Inr data)
      | Inl FileNotFoundError \<Rightarrow>
          ([NoticeOf ''File Error'' [] (DatabaseError DbFileNotFound)], Inr (JObj []))
      | Inl (JSONDecodeError m) \<Rightarrow>
          ([Notice ''JSON Error'' (''Failed to decode database JSON: '' @ m)], Inr (JObj []))
      | Inl e \<Rightarrow>
          ([NoticeOf ''Error'' ''Unexpected error: '' e], Inr (JObj [])))"

subsection \<open>find_user_by_email\<close>

text \<open>
  \<^verbatim>\<open>details.get("email").strip().lower()\<close>: the methods exist on a dict and on a string
  only.
\<close>

definition stored_email :: "json \<Rightarrow> error + string" where
  "stored_email details =
     (case py_get details ''email'' of
        Inl e \<Rightarrow> Inl e
      | Inr (JStr s) \<Rightarrow> Inr (lower (strip s))
      | Inr _ \<Rightarrow> Inl AttributeError)"

text \<open>
  The loop of lines 230 to 235 over the items, with the query already normalised. The
  result type follows the annotation \<^verbatim>\<open>str | None\<close>.
\<close>

fun find_items :: "(string \<times> json) list \<Rightarrow> string \<Rightarrow> error + string option" where
  "find_items [] email = Inl (UserNotFoundError email)"
| "find_items ((username, details) # rest) email =
     (case stored_email details of
        Inl e \<Rightarrow> Inl e
      | Inr e \<Rightarrow> if e = email then Inr (Some username) else find_items rest email)"

definition find_user_by_email ::
    "(string \<Rightarrow> bool) \<Rightarrow> resource \<Rightarrow> string \<Rightarrow> notice list \<times> (error + string option)" where
  "find_user_by_email rx f email =
     (let email' = lower (strip email);
          (notices, loaded) = load_users_db rx f
      in (notices,
          case loaded of
            Inl e \<Rightarrow> Inl e
          | Inr (JObj items) \<Rightarrow> find_items items email'
          | Inr _ \<Rightarrow> Inl AttributeError))"

subsection \<open>recover_password\<close>

text \<open>
  The window as the handler sees it: the text of the input field, whether the window has
  been closed, and the dialogs shown so far.
\<close>

record window =
  email_input :: string
  closed :: bool
  shown :: "notice list"

text \<open>
  The else branch of lines 208 to 212: the dialog, and the input field cleared.
\<close>

definition email_not_found :: "window \<Rightarrow> window" where
  "email_not_found self =
     self\<lparr>shown := shown self @ [Notice ''Error'' ''Email not found. Please try again.''],
          email_input := []\<rparr>"

text \<open>
  Lines 198 to 207, entered with a username that passed \<^verbatim>\<open>if user\<close>: the try block
  with its handler, which catches whatever the sender raises.
\<close>

definition send_and_report :: "email_sender \<Rightarrow> smtp \<Rightarrow> string \<Rightarrow> string \<Rightarrow> window \<Rightarrow> window" where
  "send_and_report sender srv email user self =
     (case send_recovery_email sender srv email user of
        Inr _ \<Rightarrow>
          self\<lparr>shown := shown self @ [Notice ''Success'' ''A recovery email has been sent.''],
               closed := True\<rparr>
      | Inl e \<Rightarrow> self\<lparr>shown := shown self @ [NoticeOf ''Error'' [] e]\<rparr>)"

text \<open>
  Lines 185 to 212. The result pairs what the handler raises (\<^verbatim>\<open>Inl\<close>) or that it
  returns (\<^verbatim>\<open>Inr ()\<close>) with the window it leaves behind. The call of
  \<^verbatim>\<open>find_user_by_email\<close> stands outside the try block, so what it raises leaves the
  handler. \<^verbatim>\<open>if user\<close> is false for \<^verbatim>\<open>None\<close> and for the empty string.
\<close>

definition recover_password ::
    "(string \<Rightarrow> bool) \<Rightarrow> resource \<Rightarrow> email_sender \<Rightarrow> smtp \<Rightarrow> window \<Rightarrow> (error + unit) \<times> window" where
  "recover_password rx f sender srv self =
     (let email = email_input self;
          (notices, found) = find_user_by_email rx f email;
          self1 = self\<lparr>shown := shown self @ notices\<rparr>
      in case found of
           Inl e \<Rightarrow> (Inl e, self1)
         | Inr None \<Rightarrow> (Inr (), email_not_found self1)
         | Inr (Some user) \<Rightarrow>
             if user \<noteq> []
             then (Inr (), send_and_report sender srv email user self1)
             else (Inr (), email_not_found self1))"

section \<open>The properties' vocabulary\<close>

subsection \<open>The email pattern\<close>

text \<open>
  Modelled from the spec: the pattern \<^verbatim>\<open>email_regex\<close> of \<^verbatim>\<open>FinalProject.assets.regex\<close>,
  which is not part of the sources, as the validation algorithm describes it: a local part,
  one \<^verbatim>\<open>@\<close>, and a domain that contains at least one dot with text on both sides, with no
  whitespace anywhere. The general properties below hold for every pattern; this one
  instantiates them on concrete stores.
\<close>

definition email_regex :: "string \<Rightarrow> bool" where
  "email_regex s =
     (let name = takeWhile (\<lambda>c. c \<noteq> CHR ''@'') s;
          domain = drop (length name + 1) s
      in name \<noteq> [] \<and> length name < length s \<and> CHR ''@'' \<notin> set domain
         \<and> \<not> list_ex isspace s \<and> CHR ''.'' \<in> set (butlast (tl domain)))"

subsection \<open>Records and matches\<close>

text \<open>
  A record passes both checks of the validation algorithm: it is a mapping with the keys
  \<^verbatim>\<open>email\<close> and \<^verbatim>\<open>password_hash\<close>, and its email is a string that the pattern fully matches.
\<close>

fun passes_checks :: "(string \<Rightarrow> bool) \<Rightarrow> json \<Rightarrow> bool" where
  "passes_checks rx (JObj kvs) =
     (''password_hash'' \<in> set (map fst kvs) \<and>
      (case map_of kvs ''email'' of Some (JStr s) \<Rightarrow> rx s | _ \<Rightarrow> False))"
| "passes_checks rx d = False"

text \<open>
  The lookup algorithm's comparison: the stored email of a record and the query are equal
  after surrounding whitespace is trimmed and the case is folded on both sides.
\<close>

fun email_matches :: "string \<Rightarrow> string \<times> json \<Rightarrow> bool" where
  "email_matches q (u, JObj kvs) =
     (case map_of kvs ''email'' of
        Some (JStr s) \<Rightarrow> lower (strip s) = lower (strip q)
      | _ \<Rightarrow> False)"
| "email_matches q (u, d) = False"



subsection \<open>Concrete stores, senders and relays\<close>

definition user_record :: "string \<Rightarrow> string \<Rightarrow> json" where
  "user_record e h = JObj [(''email'', JStr e), (''password_hash'', JStr h)]"

text \<open>The store of the specification's scenarios.\<close>

definition alice_store :: json where
  "alice_store = JObj [(''alice'', user_record ''A@X.com'' ''h1'')]"

definition gmail_sender :: email_sender where
  "gmail_sender =
     \<lparr> smtp_server = ''smtp.gmail.com'', smtp_port = 587,
       sender_email = ''app@x.com'', sender_password = ''secret'' \<rparr>"

text \<open>A relay that accepts one password and raises the authentication error for any other.\<close>

definition relay :: "string \<Rightarrow> smtp" where
  "relay password =
     \<lparr> connect = (\<lambda>host port. None),
       starttls = None,
       login = (\<lambda>user pw. if pw = password then None else Some SMTPAuthenticationError),
       sendmail = (\<lambda>sender recipient msg. None) \<rparr>"

definition idle_window :: "string \<Rightarrow> window" where
  "idle_window text = \<lparr> email_input = text, closed = False, shown = [] \<rparr>"

section \<open>Properties of the validator\<close>

lemma in_keys_iff: "k \<in> set (map fst kvs) \<longleftrightarrow> map_of kvs k \<noteq> None"
  by (simp add: map_of_eq_None_iff)

lemma validate_record_dict:
  "validate_record rx u (JObj kvs) =
     (if ''email'' \<notin> set (map fst kvs) \<or> ''password_hash'' \<notin> set (map fst kvs)
      then Some (DatabaseError (MissingFields u (JObj kvs)))
      else case map_of kvs ''email'' of
             Some (JStr s) \<Rightarrow>
               if rx s then None else Some (DatabaseError (InvalidEmailFormat u (JStr s)))
           | _ \<Rightarrow> Some TypeError)"
proof (cases "map_of kvs ''email''")
  case None
  then have "''email'' \<notin> set (map fst kvs)"
    using in_keys_iff [of "''email''" kvs] by simp
  then show ?thesis
    by (simp add: validate_record_def)
next
  case (Some v)
  then have "''email'' \<in> set (map fst kvs)"
    using in_keys_iff [of "''email''" kvs] by simp
  with Some show ?thesis
    by (cases v) (simp_all add: validate_record_def)
qed

lemma validate_record_None_iff:
  "validate_record rx u d = None \<longleftrightarrow> passes_checks rx d"
proof (cases d)
  case (JObj kvs)
  show ?thesis
    unfolding JObj validate_record_dict
    using in_keys_iff [of "''email''" kvs]
    by (auto split: option.splits json.splits)
qed (simp_all add: validate_record_def)

lemma validate_items_True_iff:
  "validate_items rx items = Inr True \<longleftrightarrow> list_all (\<lambda>(u, d). passes_checks rx d) items"
proof (induction items)
  case Nil
  show ?case by simp
next
  case (Cons p items)
  obtain u d where p: "p = (u, d)" by (cases p)
  show ?case
  proof (cases "validate_record rx u d")
    case None
    with Cons p show ?thesis
      using validate_record_None_iff [of rx u d] by simp
  next
    case (Some e)
    with p show ?thesis
      using validate_record_None_iff [of rx u d] by simp
  qed
qed






lemma email_regex_examples:
  "email_regex ''A@X.com''" "email_regex ''b@x.com''" "\<not> email_regex ''carol at x''"
  by (simp_all add: email_regex_def isspace_def)


section \<open>Properties of strip and lower\<close>

lemma isspace_lower_char: "isspace (lower_char c) = isspace c"
  by (auto simp: isspace_def lower_char_def Let_def)

lemma dropWhile_isspace_lower:
  "dropWhile isspace (lower s) = lower (dropWhile isspace s)"
  by (induction s) (simp_all add: lower_def isspace_lower_char)

lemma strip_lower: "strip (lower s) = lower (strip s)"
proof -
  have r: "rev (lower t) = lower (rev t)" for t
    by (simp add: lower_def rev_map)
  show ?thesis
    by (simp add: strip_def dropWhile_isspace_lower r)
qed

lemma strip_padding:
  assumes a: "list_all isspace a" and b: "list_all isspace b"
  shows "strip (a @ s @ b) = strip s"
proof -
  from a have 1: "dropWhile isspace (a @ s @ b) = dropWhile isspace (s @ b)"
    by (simp add: dropWhile_append list_all_iff)
  show ?thesis
  proof (cases "list_all isspace s")
    case True
    have sb: "dropWhile isspace (s @ b) = []"
      using True b by (auto simp: list_all_iff)
    have ss: "dropWhile isspace s = []"
      using True by (auto simp: list_all_iff)
    show ?thesis
      unfolding strip_def 1 sb ss by simp
  next
    case False
    then have "dropWhile isspace (s @ b) = dropWhile isspace s @ b"
      by (auto simp: dropWhile_append list_all_iff)
    moreover from b have "dropWhile isspace (rev b @ t) = dropWhile isspace t" for t
      by (simp add: dropWhile_append list_all_iff)
    ultimately show ?thesis
      using 1 by (simp add: strip_def)
  qed
qed

lemma normalise_padding:
  assumes "list_all isspace a" and "list_all isspace b" and "lower q' = lower q"
  shows "lower (strip (a @ q' @ b)) = lower (strip q)"
proof -
  have "lower (strip (a @ q' @ b)) = lower (strip q')"
    using assms(1,2) by (simp add: strip_padding)
  also have "\<dots> = strip (lower q')" by (simp add: strip_lower)
  also have "\<dots> = strip (lower q)" by (simp add: assms(3))
  also have "\<dots> = lower (strip q)" by (simp add: strip_lower)
  finally show ?thesis .
qed


section \<open>Properties of the store and the lookup\<close>

lemma load_users_db_valid:
  "validate_users_db rx data = Inr True \<Longrightarrow> load_users_db rx (Content data) = ([], Inr data)"
  by (simp add: load_users_db_def load_users_db_try_def)

lemma load_users_db_caught:
  "load_users_db_try rx f = Inl e \<Longrightarrow>
   \<exists>n. load_users_db rx f = ([n], Inr (JObj []))"
  by (cases e) (simp_all add: load_users_db_def)

lemma load_users_db_try_fails:
  assumes "f = Missing \<or> (\<exists>m. f = Undecodable m)
           \<or> (\<exists>data. f = Content data \<and> validate_users_db rx data \<noteq> Inr True)"
  shows "\<exists>e. load_users_db_try rx f = Inl e"
proof (cases f)
  case (Content data)
  with assms have "validate_users_db rx data \<noteq> Inr True" by simp
  with Content show ?thesis
    by (cases "validate_users_db rx data") (simp_all add: load_users_db_try_def)
qed (simp_all add: load_users_db_try_def)

lemma stored_email_passing:
  "passes_checks rx d \<Longrightarrow>
   \<exists>s. stored_email d = Inr s \<and> (email_matches q (u, d) \<longleftrightarrow> s = lower (strip q))"
  by (cases d) (auto simp: stored_email_def split: option.splits json.splits)

lemma find_items_valid:
  "list_all (\<lambda>(u, d). passes_checks rx d) items \<Longrightarrow>
   find_items items (lower (strip q)) =
     (case List.find (email_matches q) items of
        Some (u, d) \<Rightarrow> Inr (Some u)
      | None \<Rightarrow> Inl (UserNotFoundError (lower (strip q))))"
proof (induction items)
  case Nil
  show ?case by simp
next
  case (Cons p items)
  obtain u d where p: "p = (u, d)" by (cases p)
  from Cons.prems p obtain s where
    s: "stored_email d = Inr s" "email_matches q (u, d) \<longleftrightarrow> s = lower (strip q)"
    using stored_email_passing [of rx d q u] by auto
  from Cons p s show ?case by simp
qed

lemma find_user_by_email_valid:
  assumes "validate_users_db rx (JObj items) = Inr True"
  shows "find_user_by_email rx (Content (JObj items)) q =
           ([], case List.find (email_matches q) items of
                  Some (u, d) \<Rightarrow> Inr (Some u)
                | None \<Rightarrow> Inl (UserNotFoundError (lower (strip q))))"
proof -
  from assms have "list_all (\<lambda>(u, d). passes_checks rx d) items"
    by (simp add: validate_items_True_iff)
  then show ?thesis
    using assms by (simp add: find_user_by_email_def load_users_db_valid find_items_valid)
qed

lemma find_user_by_email_query:
  "lower (strip q') = lower (strip q) \<Longrightarrow>
   find_user_by_email rx f q' = find_user_by_email rx f q"
  by (simp add: find_user_by_email_def)


lemma ground_strings:
  "lower (strip ''  a@x.com '') = ''a@x.com''"
  "lower (strip ''A@X.com'') = ''a@x.com''"
  "lower (strip ''a@x.com'') = ''a@x.com''"
  "lower (strip ''bob@x.com'') = ''bob@x.com''"
  "lower ''A@x.COM'' = lower ''a@x.com''"
  "list_all isspace ''  ''" "list_all isspace '' ''"
  by code_simp+

text \<open>
  C1, as the code has it. \<^verbatim>\<open>load_users_db\<close> never fails. A store that validates is returned
  whole, with no dialog. For a store resource that is missing, that the decoder rejects, or
  whose validation does not return True, the error is caught inside the function, one
  dialog is shown, and the result is the empty mapping, never a part of the store.
\<close>

theorem load_users_db_never_fails:
  "(validate_users_db rx data = Inr True \<longrightarrow>
      load_users_db rx (Content data) = ([], Inr data))
   \<and> (f = Missing \<or> (\<exists>m. f = Undecodable m)
        \<or> (\<exists>data. f = Content data \<and> validate_users_db rx data \<noteq> Inr True) \<longrightarrow>
      (\<exists>n. load_users_db rx f = ([n], Inr (JObj []))))"
proof (intro conjI impI)
  assume "validate_users_db rx data = Inr True"
  then show "load_users_db rx (Content data) = ([], Inr data)"
    by (rule load_users_db_valid)
next
  assume "f = Missing \<or> (\<exists>m. f = Undecodable m)
        \<or> (\<exists>data. f = Content data \<and> validate_users_db rx data \<noteq> Inr True)"
  then obtain e where "load_users_db_try rx f = Inl e"
    using load_users_db_try_fails by blast
  then show "\<exists>n. load_users_db rx f = ([n], Inr (JObj []))"
    by (rule load_users_db_caught)
qed

text \<open>The theorem at the store of the scenarios and at a store whose record lacks its hash.\<close>

theorem load_users_db_never_fails_witness:
  "load_users_db email_regex (Content alice_store) = ([], Inr alice_store)
   \<and> (\<exists>n. load_users_db email_regex
             (Content (JObj [(''bob'', JObj [(''email'', JStr ''b@x.com'')])]))
           = ([n], Inr (JObj [])))"
  using load_users_db_never_fails
          [of email_regex alice_store
              "Content (JObj [(''bob'', JObj [(''email'', JStr ''b@x.com'')])])"]
  by (simp add: alice_store_def user_record_def validate_record_def email_regex_examples)

text \<open>
  C1 as stated fails: for a missing file, for a text that is not JSON and for a record
  without \<^verbatim>\<open>password_hash\<close> the function returns the empty mapping to its caller instead
  of raising.
\<close>

theorem load_users_db_returns_empty:
  "load_users_db email_regex Missing =
     ([NoticeOf ''Error'' ''Unexpected error: '' (DatabaseError DbFileNotFound)], Inr (JObj []))
   \<and> load_users_db email_regex (Undecodable ''Expecting value'') =
     ([Notice ''JSON Error'' ''Failed to decode database JSON: Expecting value''], Inr (JObj []))
   \<and> load_users_db email_regex
       (Content (JObj [(''bob'', JObj [(''email'', JStr ''b@x.com'')])])) =
     ([NoticeOf ''Error'' ''Unexpected error: ''
         (DatabaseError (MissingFields ''bob'' (JObj [(''email'', JStr ''b@x.com'')])))],
      Inr (JObj []))"
  by (simp add: load_users_db_def load_users_db_try_def validate_record_def)

text \<open>
  C3. For every store that validates and every query, \<^verbatim>\<open>find_user_by_email\<close> returns the
  username of the first record whose stored email equals the query after both are trimmed
  and lower-cased, and raises the not-found error for the normalised query when there is
  none. Padding the query, or a stored email, with whitespace and changing the case of its
  letters changes nothing. For the store with alice and \<^verbatim>\<open>A@X.com\<close>, the query
  \<^verbatim>\<open>"  a@x.com "\<close> returns alice.
\<close>

theorem find_user_by_email_normalises:
  "(validate_users_db rx (JObj items) = Inr True \<longrightarrow>
      find_user_by_email rx (Content (JObj items)) q =
        ([], case List.find (email_matches q) items of
               Some (u, d) \<Rightarrow> Inr (Some u)
             | None \<Rightarrow> Inl (UserNotFoundError (lower (strip q)))))
   \<and> (list_all isspace a \<and> list_all isspace b \<and> lower q' = lower q \<longrightarrow>
        find_user_by_email rx f (a @ q' @ b) = find_user_by_email rx f q)
   \<and> (list_all isspace a \<and> list_all isspace b \<and> lower s' = lower s
        \<and> map_of kvs' ''email'' = Some (JStr (a @ s' @ b))
        \<and> map_of kvs ''email'' = Some (JStr s) \<longrightarrow>
        email_matches q (u', JObj kvs') = email_matches q (u, JObj kvs))
   \<and> (rx ''A@X.com'' \<longrightarrow>
        snd (find_user_by_email rx (Content alice_store) ''  a@x.com '') = Inr (Some ''alice''))"
proof (intro conjI impI)
  assume "validate_users_db rx (JObj items) = Inr True"
  then show "find_user_by_email rx (Content (JObj items)) q =
        ([], case List.find (email_matches q) items of
               Some (u, d) \<Rightarrow> Inr (Some u)
             | None \<Rightarrow> Inl (UserNotFoundError (lower (strip q))))"
    by (rule find_user_by_email_valid)
next
  assume "list_all isspace a \<and> list_all isspace b \<and> lower q' = lower q"
  then have "lower (strip (a @ q' @ b)) = lower (strip q)"
    by (simp add: normalise_padding)
  then show "find_user_by_email rx f (a @ q' @ b) = find_user_by_email rx f q"
    by (rule find_user_by_email_query)
next
  assume h: "list_all isspace a \<and> list_all isspace b \<and> lower s' = lower s
        \<and> map_of kvs' ''email'' = Some (JStr (a @ s' @ b))
        \<and> map_of kvs ''email'' = Some (JStr s)"
  then have "lower (strip (a @ s' @ b)) = lower (strip s)"
    by (simp add: normalise_padding)
  with h show "email_matches q (u', JObj kvs') = email_matches q (u, JObj kvs)"
    by simp
next
  assume "rx ''A@X.com''"
  then have "validate_users_db rx alice_store = Inr True"
    by (simp add: alice_store_def user_record_def validate_record_def)
  then show "snd (find_user_by_email rx (Content alice_store) ''  a@x.com '') = Inr (Some ''alice'')"
    unfolding alice_store_def
    by (simp add: find_user_by_email_valid user_record_def ground_strings)
qed

text \<open>
  The theorem on the store of the scenarios: the padded query finds alice, the query for
  bob is not found, and padding and case do not matter on either side.
\<close>

theorem find_user_by_email_normalises_witness:
  "find_user_by_email email_regex (Content alice_store) ''  a@x.com '' = ([], Inr (Some ''alice''))
   \<and> find_user_by_email email_regex (Content alice_store) ''bob@x.com''
       = ([], Inl (UserNotFoundError ''bob@x.com''))
   \<and> find_user_by_email email_regex (Content alice_store) ''  A@x.COM ''
       = find_user_by_email email_regex (Content alice_store) ''a@x.com''
   \<and> email_matches ''a@x.com'' (''alice'', user_record ''  A@x.COM '' ''h1'')
       = email_matches ''a@x.com'' (''alice'', user_record ''a@x.com'' ''h1'')"
proof -
  have v: "validate_users_db email_regex (JObj [(''alice'', user_record ''A@X.com'' ''h1'')])
             = Inr True"
    by (simp add: user_record_def validate_record_def email_regex_examples)
  have sp: "list_all isspace ''  '' \<and> list_all isspace '' '' \<and> lower ''A@x.COM'' = lower ''a@x.com''"
    by (simp add: ground_strings isspace_def)
  note t = find_user_by_email_normalises
          [where rx = email_regex and items = "[(''alice'', user_record ''A@X.com'' ''h1'')]"
             and a = "''  ''" and b = "'' ''" and q' = "''A@x.COM''"
             and f = "Content alice_store" and s' = "''A@x.COM''" and s = "''a@x.com''"
             and kvs' = "[(''email'', JStr ''  A@x.COM ''), (''password_hash'', JStr ''h1'')]"
             and kvs = "[(''email'', JStr ''a@x.com''), (''password_hash'', JStr ''h1'')]"
             and u' = "''alice''" and u = "''alice''"]
  have 1: "find_user_by_email email_regex (Content alice_store) ''  a@x.com ''
             = ([], Inr (Some ''alice''))"
    using t [where q = "''  a@x.com ''"] v
    by (simp add: alice_store_def user_record_def ground_strings)
  have 2: "find_user_by_email email_regex (Content alice_store) ''bob@x.com''
             = ([], Inl (UserNotFoundError ''bob@x.com''))"
    using t [where q = "''bob@x.com''"] v
    by (simp add: alice_store_def user_record_def ground_strings)
  have 3: "find_user_by_email email_regex (Content alice_store) ''  A@x.COM ''
       = find_user_by_email email_regex (Content alice_store) ''a@x.com''"
    using t [where q = "''a@x.com''"] sp by simp
  have 4: "email_matches ''a@x.com'' (''alice'', user_record ''  A@x.COM '' ''h1'')
       = email_matches ''a@x.com'' (''alice'', user_record ''a@x.com'' ''h1'')"
    using t [where q = "''a@x.com''"] sp by (simp add: user_record_def)
  from 1 2 3 4 show ?thesis by simp
qed

lemma find_first:
  "\<not> list_ex P pre \<Longrightarrow> P x \<Longrightarrow> List.find P (pre @ x # rest) = Some x"
  by (induction pre) simp_all

lemma email_regex_more:
  "email_regex ''c@x.com''" "email_regex ''a@x.com''"
  by (simp_all add: email_regex_def isspace_def)

lemma ground_strings_more:
  "lower (strip '' a@X.com'') = ''a@x.com''"
  "lower (strip ''c@x.com'') = ''c@x.com''"
  by code_simp+

text \<open>
  C7. In a store that validates and holds two different usernames whose records both
  match the query after normalisation, \<^verbatim>\<open>find_user_by_email\<close> returns the username that
  comes first in the store's iteration order: the one with no matching record before it.
\<close>

theorem find_user_by_email_first_match:
  "validate_users_db rx (JObj items) = Inr True
   \<and> items = pre @ (u1, d1) # mid @ (u2, d2) # post \<and> u1 \<noteq> u2
   \<and> email_matches q (u1, d1) \<and> email_matches q (u2, d2)
   \<and> \<not> list_ex (email_matches q) pre
   \<longrightarrow> snd (find_user_by_email rx (Content (JObj items)) q) = Inr (Some u1)"
proof
  assume h: "validate_users_db rx (JObj items) = Inr True
   \<and> items = pre @ (u1, d1) # mid @ (u2, d2) # post \<and> u1 \<noteq> u2
   \<and> email_matches q (u1, d1) \<and> email_matches q (u2, d2)
   \<and> \<not> list_ex (email_matches q) pre"
  then have v: "validate_users_db rx (JObj items) = Inr True"
    by blast
  from h have "List.find (email_matches q) items = Some (u1, d1)"
    using find_first [of "email_matches q" pre "(u1, d1)" "mid @ (u2, d2) # post"] by simp
  then show "snd (find_user_by_email rx (Content (JObj items)) q) = Inr (Some u1)"
    by (simp add: find_user_by_email_valid [OF v])
qed

text \<open>
  The theorem on a store where alice and bob share an email after normalisation and carol
  stands before them.
\<close>

theorem find_user_by_email_first_match_witness:
  "snd (find_user_by_email email_regex
          (Content (JObj [(''carol'', user_record ''c@x.com'' ''h3''),
                          (''alice'', user_record ''A@X.com'' ''h1''),
                          (''bob'', user_record ''a@x.com'' ''h2'')]))
          '' a@X.com'') = Inr (Some ''alice'')"
  using find_user_by_email_first_match
          [where rx = email_regex
             and items = "[(''carol'', user_record ''c@x.com'' ''h3''),
                           (''alice'', user_record ''A@X.com'' ''h1''),
                           (''bob'', user_record ''a@x.com'' ''h2'')]"
             and pre = "[(''carol'', user_record ''c@x.com'' ''h3'')]"
             and ?u1.0 = "''alice''" and ?d1.0 = "user_record ''A@X.com'' ''h1''"
             and mid = "[]"
             and ?u2.0 = "''bob''" and ?d2.0 = "user_record ''a@x.com'' ''h2''"
             and post = "[]" and q = "'' a@X.com''"]
  by (simp add: user_record_def validate_record_def email_regex_examples email_regex_more
        ground_strings ground_strings_more)


section \<open>Properties of the submit handler\<close>




lemma recover_password_cases:
  assumes "find_user_by_email rx f (email_input self) = (notices, found)"
  shows "recover_password rx f sender srv self =
           (case found of
              Inl e \<Rightarrow> (Inl e, self\<lparr>shown := shown self @ notices\<rparr>)
            | Inr None \<Rightarrow> (Inr (), email_not_found (self\<lparr>shown := shown self @ notices\<rparr>))
            | Inr (Some user) \<Rightarrow>
                if user \<noteq> []
                then (Inr (), send_and_report sender srv (email_input self) user
                               (self\<lparr>shown := shown self @ notices\<rparr>))
                else (Inr (), email_not_found (self\<lparr>shown := shown self @ notices\<rparr>)))"
  using assms by (simp add: recover_password_def Let_def)



text \<open>
  C2 on the code: with the store of the scenarios and the input \<^verbatim>\<open>bob@x.com\<close>, which
  matches no record, the not-found error raised by the lookup leaves \<^verbatim>\<open>recover_password\<close>;
  no dialog is shown and the input field keeps its text.
\<close>

theorem recover_password_not_found_escapes:
  "recover_password email_regex (Content alice_store) gmail_sender (relay ''secret'')
     (idle_window ''bob@x.com'')
   = (Inl (UserNotFoundError ''bob@x.com''),
      \<lparr>email_input = ''bob@x.com'', closed = False, shown = []\<rparr>)"
proof -
  have v: "validate_users_db email_regex (JObj [(''alice'', user_record ''A@X.com'' ''h1'')])
             = Inr True"
    by (simp add: user_record_def validate_record_def email_regex_examples)
  have fu: "find_user_by_email email_regex (Content alice_store) ''bob@x.com''
            = ([], Inl (UserNotFoundError ''bob@x.com''))"
    unfolding alice_store_def
    by (subst find_user_by_email_valid [OF v]) (simp add: user_record_def ground_strings)
  show ?thesis
    by (simp add: recover_password_def idle_window_def fu Let_def)
qed

section \<open>Properties of the configuration loader and the sender\<close>








section \<open>The submit handler after a found user\<close>

text \<open>
  C8. After the lookup has found a user with a non-empty username: when the send
  succeeds, the handler shows the success dialog and closes the window; when the send
  fails, it shows an error dialog with the failure's text, leaves the window open or closed
  as it was, and leaves the input field as it was.
\<close>

theorem recover_password_after_found_user:
  "find_user_by_email rx f (email_input self) = (notices, Inr (Some user)) \<and> user \<noteq> [] \<longrightarrow>
     (send_recovery_email sender srv (email_input self) user = Inr () \<longrightarrow>
        recover_password rx f sender srv self =
          (Inr (),
           self\<lparr>shown := shown self @ notices @ [Notice ''Success'' ''A recovery email has been sent.''],
                closed := True\<rparr>))
     \<and> (\<forall>e. send_recovery_email sender srv (email_input self) user = Inl e \<longrightarrow>
        recover_password rx f sender srv self =
          (Inr (), self\<lparr>shown := shown self @ notices @ [NoticeOf ''Error'' [] e]\<rparr>)
        \<and> closed (snd (recover_password rx f sender srv self)) = closed self
        \<and> email_input (snd (recover_password rx f sender srv self)) = email_input self)"
  by (auto simp: recover_password_cases send_and_report_def)

text \<open>
  The theorem on the store of the scenarios: a relay that accepts the password, and the
  scenario of wrong credentials.
\<close>

theorem recover_password_after_found_user_witness:
  "recover_password email_regex (Content alice_store) gmail_sender (relay ''secret'')
     (idle_window ''a@x.com'')
   = (Inr (), \<lparr>email_input = ''a@x.com'', closed = True,
                shown = [Notice ''Success'' ''A recovery email has been sent.'']\<rparr>)
   \<and> recover_password email_regex (Content alice_store) gmail_sender (relay ''other'')
     (idle_window ''a@x.com'')
   = (Inr (), \<lparr>email_input = ''a@x.com'', closed = False,
                shown = [NoticeOf ''Error'' []
                  (EmailSendingError
                     ''Authentication error: Unable to authenticate with SMTP server.'')]\<rparr>)"
proof -
  have v: "validate_users_db email_regex (JObj [(''alice'', user_record ''A@X.com'' ''h1'')])
             = Inr True"
    by (simp add: user_record_def validate_record_def email_regex_examples)
  have fu: "find_user_by_email email_regex (Content alice_store) (email_input (idle_window ''a@x.com''))
            = ([], Inr (Some ''alice''))"
    unfolding alice_store_def idle_window_def
    by (subst find_user_by_email_valid [OF v]) (simp add: user_record_def ground_strings)
  have ok: "send_recovery_email gmail_sender (relay ''secret'')
              (email_input (idle_window ''a@x.com'')) ''alice'' = Inr ()"
    by (simp add: send_recovery_email_def smtp_session_def gmail_sender_def relay_def)
  have bad: "send_recovery_email gmail_sender (relay ''other'')
              (email_input (idle_window ''a@x.com'')) ''alice'' =
        Inl (EmailSendingError ''Authentication error: Unable to authenticate with SMTP server.'')"
    by (simp add: send_recovery_email_def smtp_session_def gmail_sender_def relay_def)
  show ?thesis
    using recover_password_after_found_user
            [where rx = email_regex and f = "Content alice_store"
               and self = "idle_window ''a@x.com''" and notices = "[]" and user = "''alice''"
               and sender = gmail_sender and srv = "relay ''secret''"]
          recover_password_after_found_user
            [where rx = email_regex and f = "Content alice_store"
               and self = "idle_window ''a@x.com''" and notices = "[]" and user = "''alice''"
               and sender = gmail_sender and srv = "relay ''other''"]
          fu ok bad
    by (simp add: idle_window_def)
qed

end
